theory Spec2Isabelle
  imports Complex_Main "HOL-Library.Log_Nat"
begin

section \<open>The grade-target solver of the CWA predictor\<close>

text \<open>
  The development embeds \<^verbatim>\<open>predict_scores_cvxpy\<close> of \<^verbatim>\<open>src/cwa_app.py\<close>
  (lines 140 to 186) and the feasibility card that renders its status (lines 213 to 223).
  The convex-optimisation library is outside the repository: the call
  \<^verbatim>\<open>prob.solve()\<close> is a parameter \<open>solve\<close> that maps the linear program built by the
  code to the status and the variable values the library leaves behind, and nothing is
  assumed about which status or values it leaves. Python floats are real numbers; the
  arithmetic of lines 145 to 148 is exact, the rounding of line 174 is carried out in
  binary64 as the code does.
\<close>

subsection \<open>Data\<close>

text \<open>
  A course is a Python dict. The code reads the key \<^verbatim>\<open>"name"\<close> with
  \<^verbatim>\<open>c.get("name", default)\<close> and the key \<^verbatim>\<open>"credit"\<close> with \<^verbatim>\<open>c["credit"]\<close>,
  so either key may be absent: a missing name is replaced, a missing credit raises
  \<^verbatim>\<open>KeyError\<close>.
\<close>

record course =
  name :: "string option"
  credit :: "real option"

datatype py_error = KeyError | IndexError

text \<open>
  The score of a result entry is a float or the string \<^verbatim>\<open>"N/A"\<close>. The float is
  finite, or an infinity when the rounding of line 174 overflows.
\<close>

datatype score = Score real | PosInf | NegInf | NA

record result =
  res_name :: string
  res_credit :: real
  res_score :: score

text \<open>
  The library's status strings that the code names: \<^verbatim>\<open>cp.OPTIMAL\<close>,
  \<^verbatim>\<open>cp.OPTIMAL_INACCURATE\<close> and \<^verbatim>\<open>cp.INFEASIBLE\<close>.
\<close>

definition OPTIMAL :: string where
  "OPTIMAL = ''optimal''"

definition OPTIMAL_INACCURATE :: string where
  "OPTIMAL_INACCURATE = ''optimal_inaccurate''"

definition INFEASIBLE :: string where
  "INFEASIBLE = ''infeasible''"

text \<open>
  What \<^verbatim>\<open>prob.solve()\<close> leaves behind: \<^verbatim>\<open>prob.status\<close> and \<^verbatim>\<open>scores.value\<close>
  (\<open>None\<close> when the library has no values).
\<close>

record solver_outcome =
  status :: string
  scores_value :: "real list option"

text \<open>
  The linear program of lines 151 to 163: minimise \<open>credits @ scores\<close> subject to
  \<open>credits @ scores \<ge> required_points\<close>, \<open>scores \<ge> 0\<close> and \<open>scores \<le> 100\<close>, over
  \<open>n = len(credits)\<close> variables.
\<close>

record lp_problem =
  lp_credits :: "real list"
  lp_required :: real

subsection \<open>The code\<close>

text \<open>Line 141: \<^verbatim>\<open>[float(c["credit"]) for c in courses]\<close>.\<close>

fun credits_of :: "course list \<Rightarrow> py_error + real list" where
  "credits_of [] = Inr []"
| "credits_of (c # cs) =
     (case credit c of
        None \<Rightarrow> Inl KeyError
      | Some x \<Rightarrow> (case credits_of cs of Inl e \<Rightarrow> Inl e | Inr xs \<Rightarrow> Inr (x # xs)))"

text \<open>Lines 145 to 148.\<close>

definition required_points_of :: "real list \<Rightarrow> real \<Rightarrow> real \<Rightarrow> real \<Rightarrow> real" where
  "required_points_of credits current_total_credits current_cwa target_cwa =
     (let prev_points = current_cwa * current_total_credits;
          total_credits_after = current_total_credits + sum_list credits;
          target_points = target_cwa * total_credits_after
      in target_points - prev_points)"

text \<open>Lines 141 to 163: the problem handed to the library.\<close>

definition build_problem :: "course list \<Rightarrow> real \<Rightarrow> real \<Rightarrow> real \<Rightarrow> py_error + lp_problem" where
  "build_problem courses current_total_credits current_cwa target_cwa =
     (case credits_of courses of
        Inl e \<Rightarrow> Inl e
      | Inr credits \<Rightarrow>
          Inr \<lparr>lp_credits = credits,
               lp_required =
                 required_points_of credits current_total_credits current_cwa target_cwa\<rparr>)"

text \<open>The decimal numeral of \<^verbatim>\<open>f"Course {i+1}"\<close>.\<close>

definition digit_char :: "nat \<Rightarrow> char" where
  "digit_char d = char_of (48 + d)"

function str_nat :: "nat \<Rightarrow> string" where
  "str_nat n = (if n < 10 then [digit_char n] else str_nat (n div 10) @ [digit_char (n mod 10)])"
  by pat_completeness auto
termination
  by (relation "measure id") auto

declare str_nat.simps [simp del]

text \<open>\<^verbatim>\<open>c.get("name", f"Course {i+1}")\<close>.\<close>

definition get_name :: "course \<Rightarrow> nat \<Rightarrow> string" where
  "get_name c i = (case name c of Some s \<Rightarrow> s | None \<Rightarrow> ''Course '' @ str_nat (i + 1))"

text \<open>\<^verbatim>\<open>np.rint\<close>: the nearest integer, a tie going to the even one.\<close>

definition rint :: "real \<Rightarrow> int" where
  "rint y =
     (let f = \<lfloor>y\<rfloor>; d = y - of_int f
      in if d < 1 / 2 then f else if 1 / 2 < d then f + 1 else if even f then f else f + 1)"

text \<open>
  Binary64 arithmetic rounds the exact result of an operation to the nearest double, a
  tie going to the even significand. \<open>ilog2 a\<close> is the exponent of \<open>a > 0\<close>, that is
  \<open>2 ^ ilog2 a \<le> a < 2 ^ (ilog2 a + 1)\<close>; a double has a significand of 53 bits and its
  last bit weighs at least \<open>2 ^ - 1074\<close>.
\<close>

definition pow2 :: "int \<Rightarrow> real" where
  "pow2 e = (if 0 \<le> e then 2 ^ nat e else 1 / 2 ^ nat (- e))"

definition ilog2 :: "real \<Rightarrow> int" where
  "ilog2 a =
     (if 1 \<le> a then int (floorlog 2 (nat \<lfloor>a\<rfloor>)) - 1
      else - int (floorlog 2 (nat (\<lceil>1 / a\<rceil> - 1))))"

definition fl :: "real \<Rightarrow> real" where
  "fl x =
     (if x = 0 then 0
      else let e = max (ilog2 \<bar>x\<bar> - 52) (- 1074)
           in of_int (rint (x / pow2 e)) * pow2 e)"

text \<open>
  An exact result of magnitude \<open>2 ^ 1024 - 2 ^ 970\<close> or more is beyond the largest double
  and rounds to an infinity.
\<close>

definition overflows :: "real \<Rightarrow> bool" where
  "overflows y \<longleftrightarrow> 2 ^ 1024 - 2 ^ 970 \<le> \<bar>y\<bar>"

text \<open>
  \<^verbatim>\<open>float(np.round(x, 2))\<close> for a double \<open>x\<close>: the library multiplies by 100, applies
  \<^verbatim>\<open>rint\<close> and divides by 100, each step in binary64. The product can overflow, and
  then the infinity passes through the other two steps; the quotient cannot.
\<close>

definition np_round2 :: "real \<Rightarrow> score" where
  "np_round2 x =
     (if overflows (x * 100) then (if 0 < x then PosInf else NegInf)
      else Score (fl (of_int (rint (fl (x * 100))) / 100)))"

text \<open>
  Lines 170 to 175: one entry per course, read at index \<open>i\<close> of \<^verbatim>\<open>scores.value\<close>;
  an index beyond the values raises \<^verbatim>\<open>IndexError\<close>.
\<close>

fun results_scored :: "nat \<Rightarrow> course list \<Rightarrow> real list \<Rightarrow> py_error + result list" where
  "results_scored i [] v = Inr []"
| "results_scored i (c # cs) v =
     (case credit c of
        None \<Rightarrow> Inl KeyError
      | Some x \<Rightarrow>
          if i < length v then
            (case results_scored (i + 1) cs v of
               Inl e \<Rightarrow> Inl e
             | Inr rs \<Rightarrow>
                 Inr (\<lparr>res_name = get_name c i, res_credit = x,
                       res_score = np_round2 (v ! i)\<rparr> # rs))
          else Inl IndexError)"

text \<open>Lines 179 to 184: one entry per course with the marker \<^verbatim>\<open>"N/A"\<close>.\<close>

fun results_na :: "nat \<Rightarrow> course list \<Rightarrow> py_error + result list" where
  "results_na i [] = Inr []"
| "results_na i (c # cs) =
     (case credit c of
        None \<Rightarrow> Inl KeyError
      | Some x \<Rightarrow>
          (case results_na (i + 1) cs of
             Inl e \<Rightarrow> Inl e
           | Inr rs \<Rightarrow> Inr (\<lparr>res_name = get_name c i, res_credit = x, res_score = NA\<rparr> # rs)))"

text \<open>Lines 140 to 186.\<close>

definition predict_scores_cvxpy ::
  "(lp_problem \<Rightarrow> solver_outcome) \<Rightarrow> course list \<Rightarrow> real \<Rightarrow> real \<Rightarrow> real
     \<Rightarrow> py_error + (result list \<times> string)" where
  "predict_scores_cvxpy solve courses current_total_credits current_cwa target_cwa =
     (case build_problem courses current_total_credits current_cwa target_cwa of
        Inl e \<Rightarrow> Inl e
      | Inr prob \<Rightarrow>
          (let out = solve prob
           in if status out \<in> {OPTIMAL, OPTIMAL_INACCURATE} \<and> scores_value out \<noteq> None then
                (case results_scored 0 courses (the (scores_value out)) of
                   Inl e \<Rightarrow> Inl e
                 | Inr results \<Rightarrow> Inr (results, status out))
              else
                (case results_na 0 courses of
                   Inl e \<Rightarrow> Inl e
                 | Inr results \<Rightarrow> Inr (results, status out))))"

text \<open>
  Lines 213 to 223: the feasibility card shows the table of scores, the message that the
  target is not achievable, or a warning that carries the status.
\<close>

datatype card = Success "result list" | NotAchievable | SolverIssue string

definition feasibility_card :: "result list \<Rightarrow> string \<Rightarrow> card" where
  "feasibility_card scores st =
     (if st \<in> {OPTIMAL, OPTIMAL_INACCURATE} then Success scores
      else if st = INFEASIBLE then NotAchievable
      else SolverIssue st)"

subsection \<open>The linear program\<close>

text \<open>\<^verbatim>\<open>credits @ scores\<close>, the objective and the left side of the first constraint.\<close>

definition dot :: "real list \<Rightarrow> real list \<Rightarrow> real" where
  "dot xs ys = sum_list (map2 (*) xs ys)"



text \<open>
  \<^verbatim>\<open>scores\<close> is \<^verbatim>\<open>cp.Variable(n)\<close>, so a value the library leaves has \<open>n\<close> entries.
\<close>

definition shape_ok :: "(lp_problem \<Rightarrow> solver_outcome) \<Rightarrow> lp_problem \<Rightarrow> bool" where
  "shape_ok solve p \<longleftrightarrow>
     (case scores_value (solve p) of None \<Rightarrow> True | Some v \<Rightarrow> length v = length (lp_credits p))"

subsection \<open>The dot product\<close>

lemma dot_Nil [simp]: "dot [] ys = 0" "dot xs [] = 0"
  by (simp_all add: dot_def)

lemma dot_Cons [simp]: "dot (x # xs) (y # ys) = x * y + dot xs ys"
  by (simp add: dot_def)


subsection \<open>Rounding in binary64\<close>

lemma rint_of_int [simp]: "rint (of_int k) = k"
  by (simp add: rint_def)

lemma pow2_pos [simp]: "0 < pow2 e"
  by (simp add: pow2_def)

lemma pow2_nonzero [simp]: "pow2 e \<noteq> 0"
  by (simp add: pow2_def)

lemma fl_zero [simp]: "fl 0 = 0"
  by (simp add: fl_def)

lemma fl_eval:
  "x \<noteq> 0 \<Longrightarrow> ilog2 \<bar>x\<bar> = k \<Longrightarrow> - 1022 \<le> k
     \<Longrightarrow> fl x = of_int (rint (x / pow2 (k - 52))) * pow2 (k - 52)"
proof -
  assume k: "x \<noteq> 0" "ilog2 \<bar>x\<bar> = k" "- 1022 \<le> k"
  then have "max (k - 52) (- 1074) = k - 52" by simp
  with k show ?thesis by (simp add: fl_def Let_def)
qed

text \<open>A number whose significand fits into 53 bits is a double.\<close>

lemma fl_exact:
  assumes "x \<noteq> 0" "ilog2 \<bar>x\<bar> = k" "- 1022 \<le> k" "x = of_int m * pow2 (k - 52)"
  shows "fl x = x"
proof -
  have "x / pow2 (k - 52) = of_int m" using assms(4) by simp
  then show ?thesis using fl_eval [OF assms(1-3)] assms(4) by simp
qed

lemma ilog2_int:
  assumes "1 \<le> n"
  shows "ilog2 (of_int n) = int (floorlog 2 (nat n)) - 1"
  using assms by (simp add: ilog2_def)

lemma fl_int:
  assumes "n \<noteq> 0" "\<bar>n\<bar> < 2 ^ 53"
  shows "fl (of_int n) = of_int n"
proof -
  let ?a = "nat \<bar>n\<bar>"
  let ?w = "floorlog 2 ?a"
  have a: "0 < ?a" using assms(1) by simp
  have k: "ilog2 \<bar>of_int n :: real\<bar> = int ?w - 1"
    using ilog2_int [of "\<bar>n\<bar>"] assms(1) by simp
  have "?a < 2 ^ 53" using assms(2) by (simp add: nat_less_iff)
  then have w53: "?w \<le> 53" by (intro floorlog_leI) simp_all
  have "?w \<noteq> 0" using a by (simp add: floorlog_eq_zero_iff)
  then have w1: "1 \<le> ?w" by simp
  let ?s = "53 - ?w"
  have e: "int ?w - 1 - 52 = - int ?s" using w53 by simp
  have p: "pow2 (- int ?s) = 1 / 2 ^ ?s"
    by (cases "?s = 0") (simp_all add: pow2_def)
  have "(of_int n :: real) = of_int (n * 2 ^ ?s) * pow2 (int ?w - 1 - 52)"
    unfolding e p by simp
  moreover have "(of_int n :: real) \<noteq> 0" using assms(1) by simp
  moreover have "- 1022 \<le> int ?w - 1" by simp
  ultimately show ?thesis using k by (intro fl_exact [where k = "int ?w - 1" and m = "n * 2 ^ ?s"])
qed

lemma fl_numeral [simp]: "numeral n < (2 ^ 53 :: int) \<Longrightarrow> fl (numeral n) = numeral n"
  using fl_int [of "numeral n"] by simp

lemma rint_numeral [simp]: "rint (numeral n) = numeral n"
  using rint_of_int [of "numeral n"] by simp

lemma rint_zero [simp]: "rint 0 = 0"
  using rint_of_int [of 0] by simp

lemma not_overflows_small: "\<bar>y\<bar> < 2 ^ 1000 \<Longrightarrow> \<not> overflows y"
proof -
  assume "\<bar>y\<bar> < 2 ^ 1000"
  moreover have "(2 :: real) ^ 1000 \<le> 2 ^ 1024 - 2 ^ 970" by simp
  ultimately show ?thesis unfolding overflows_def by linarith
qed


lemma np_round2_35: "np_round2 35 = Score 35"
  by (simp add: np_round2_def not_overflows_small)

lemma np_round2_100: "np_round2 100 = Score 100"
  by (simp add: np_round2_def not_overflows_small)

subsection \<open>Evaluating the rounding\<close>

lemma floorlog_eq:
  assumes "2 ^ k \<le> n" "n < 2 ^ (k + 1)"
  shows "floorlog 2 n = k + 1"
proof -
  have pos: "0 < n" using assms(1) by (metis less_le_trans zero_less_numeral zero_less_power)
  have le: "floorlog 2 n \<le> k + 1" using assms(2) by (intro floorlog_leI) simp_all
  have "n < 2 ^ floorlog 2 n" using floorlog_bounds [of n 2] pos by simp
  with assms(1) have "(2 :: nat) ^ k < 2 ^ floorlog 2 n" by (rule le_less_trans)
  then have "k < floorlog 2 n" by (simp add: power_strict_increasing_iff)
  with le show ?thesis by simp
qed

lemma ilog2_eq:
  assumes "2 ^ k \<le> a" "a < 2 ^ (k + 1)"
  shows "ilog2 a = int k"
proof -
  have "(1 :: real) \<le> 2 ^ k" by (rule one_le_power) simp
  with assms(1) have one: "1 \<le> a" by (rule order_trans [rotated])
  have "(2 :: int) ^ k \<le> \<lfloor>a\<rfloor>" using assms(1) by (simp add: le_floor_iff)
  then have lo: "2 ^ k \<le> nat \<lfloor>a\<rfloor>" by (simp add: le_nat_iff)
  have "\<lfloor>a\<rfloor> < (2 :: int) ^ (k + 1)" using assms(2) by (simp add: floor_less_iff)
  then have "\<lfloor>a\<rfloor> < int (2 ^ (k + 1))" by simp
  moreover have "0 \<le> \<lfloor>a\<rfloor>" using one by simp
  ultimately have hi: "nat \<lfloor>a\<rfloor> < 2 ^ (k + 1)" by (simp only: nat_less_iff)
  from floorlog_eq [OF lo hi] one show ?thesis by (simp add: ilog2_def)
qed

lemma np_round2_eval:
  assumes "\<not> overflows (x * 100)" "fl (x * 100) = y" "rint y = n"
  shows "np_round2 x = Score (fl (of_int n / 100))"
  using assms by (simp add: np_round2_def)

lemma ilog2_a: "ilog2 (6667 / 100) = 6"
    using ilog2_eq [of 6 "6667 / 100"] by simp


lemma rint_a: "rint (6667 / 100 * 2 ^ 46) = 4691484174324859"
  by (simp add: rint_def)

lemma fl_6667: "fl (6667 / 100) = 4691484174324859 / 2 ^ 46"
proof -
  have "fl (6667 / 100) = of_int (rint (6667 / 100 / pow2 (6 - 52))) * pow2 (6 - 52)"
    by (rule fl_eval) (simp_all add: ilog2_a)
  also have "6667 / 100 / pow2 (6 - 52) = 6667 / 100 * 2 ^ 46" by (simp add: pow2_def)
  finally show ?thesis by (simp only: rint_a) (simp add: pow2_def)
qed




lemma fl_x1: "fl (1118481067 / 2 ^ 24 * 100) = 1118481067 / 2 ^ 24 * 100"
proof -
  have nz: "(1118481067 / 2 ^ 24 * 100 :: real) \<noteq> 0" by simp
  have k: "ilog2 \<bar>1118481067 / 2 ^ 24 * 100\<bar> = 12"
    using ilog2_eq [of 12 "\<bar>1118481067 / 2 ^ 24 * 100\<bar>"] by simp
  have b: "- 1022 \<le> (12 :: int)" by simp
  have e: "(1118481067 / 2 ^ 24 * 100 :: real) = of_int (27962026675 * 2 ^ 18) * pow2 (12 - 52)"
    by (simp add: pow2_def)
  show ?thesis by (rule fl_exact [OF nz k b e])
qed

lemma fl_x3: "fl (559240533 / 2 ^ 24 * 100) = 559240533 / 2 ^ 24 * 100"
proof -
  have nz: "(559240533 / 2 ^ 24 * 100 :: real) \<noteq> 0" by simp
  have k: "ilog2 \<bar>559240533 / 2 ^ 24 * 100\<bar> = 11"
    using ilog2_eq [of 11 "\<bar>559240533 / 2 ^ 24 * 100\<bar>"] by simp
  have b: "- 1022 \<le> (11 :: int)" by simp
  have e: "(559240533 / 2 ^ 24 * 100 :: real) = of_int (13981013325 * 2 ^ 19) * pow2 (11 - 52)"
    by (simp add: pow2_def)
  show ?thesis by (rule fl_exact [OF nz k b e])
qed

lemma fl_xC: "fl ((35 + 1 / 2 ^ 30) * 100) = (35 + 1 / 2 ^ 30) * 100"
proof -
  have nz: "((35 + 1 / 2 ^ 30) * 100 :: real) \<noteq> 0" by simp
  have k: "ilog2 \<bar>(35 + 1 / 2 ^ 30) * 100\<bar> = 11"
    using ilog2_eq [of 11 "\<bar>(35 + 1 / 2 ^ 30) * 100\<bar>"] by simp
  have b: "- 1022 \<le> (11 :: int)" by simp
  have e: "((35 + 1 / 2 ^ 30) * 100 :: real) = of_int (939524096025 * 2 ^ 13) * pow2 (11 - 52)"
    by (simp add: pow2_def)
  show ?thesis by (rule fl_exact [OF nz k b e])
qed

lemma np_round2_x1: "np_round2 (1118481067 / 2 ^ 24) = Score (fl (6667 / 100))"
proof -
  have a: "\<not> overflows (1118481067 / 2 ^ 24 * 100)" by (rule not_overflows_small) simp
  have c: "rint (1118481067 / 2 ^ 24 * 100) = 6667" by (simp add: rint_def)
  from np_round2_eval [OF a fl_x1 c] show ?thesis by simp
qed

lemma ilog2_b: "ilog2 (3333 / 100) = 5"
    using ilog2_eq [of 5 "3333 / 100"] by simp

lemma rint_b: "rint (3333 / 100 * 2 ^ 47) = 4690780486883082"
  by (simp add: rint_def)

lemma fl_3333: "fl (3333 / 100) = 2345390243441541 / 2 ^ 46"
proof -
  have "fl (3333 / 100) = of_int (rint (3333 / 100 / pow2 (5 - 52))) * pow2 (5 - 52)"
    by (rule fl_eval) (simp_all add: ilog2_b)
  also have "3333 / 100 / pow2 (5 - 52) = 3333 / 100 * 2 ^ 47" by (simp add: pow2_def)
  finally show ?thesis by (simp only: rint_b) (simp add: pow2_def)
qed

lemma np_round2_x3: "np_round2 (559240533 / 2 ^ 24) = Score (fl (3333 / 100))"
proof -
  have a: "\<not> overflows (559240533 / 2 ^ 24 * 100)" by (rule not_overflows_small) simp
  have c: "rint (559240533 / 2 ^ 24 * 100) = 3333" by (simp add: rint_def)
  from np_round2_eval [OF a fl_x3 c] show ?thesis by simp
qed

lemma np_round2_xC: "np_round2 (35 + 1 / 2 ^ 30) = Score 35"
proof -
  have a: "\<not> overflows ((35 + 1 / 2 ^ 30) * 100)" by (rule not_overflows_small) simp
  have c: "rint ((35 + 1 / 2 ^ 30) * 100) = 3500" by (simp add: rint_def)
  from np_round2_eval [OF a fl_xC c] show ?thesis by simp
qed

subsection \<open>The result list\<close>

lemma credits_of_length: "credits_of courses = Inr cs \<Longrightarrow> length cs = length courses"
  by (induction courses arbitrary: cs) (auto split: option.splits sum.splits)

lemma credits_of_nth:
  "credits_of courses = Inr cs \<Longrightarrow> k < length courses \<Longrightarrow> credit (courses ! k) = Some (cs ! k)"
proof (induction courses arbitrary: cs k)
  case (Cons c courses)
  then show ?case by (cases k) (auto split: option.splits sum.splits)
qed simp

lemma results_na_props:
  "credits_of courses = Inr cs \<Longrightarrow>
     \<exists>rs. results_na i courses = Inr rs \<and> length rs = length courses \<and>
       (\<forall>k<length courses. rs ! k =
          \<lparr>res_name = get_name (courses ! k) (i + k), res_credit = cs ! k, res_score = NA\<rparr>)"
proof (induction courses arbitrary: cs i)
  case Nil
  then show ?case by simp
next
  case (Cons c courses)
  from Cons.prems obtain x xs where x: "credit c = Some x" and xs: "credits_of courses = Inr xs"
    and cs: "cs = x # xs"
    by (auto split: option.splits sum.splits)
  from Cons.IH [OF xs, of "i + 1"] obtain rs where rs: "results_na (i + 1) courses = Inr rs"
    "length rs = length courses"
    "\<forall>k<length courses. rs ! k =
       \<lparr>res_name = get_name (courses ! k) (i + 1 + k), res_credit = xs ! k, res_score = NA\<rparr>"
    by blast
  let ?r = "\<lparr>res_name = get_name c i, res_credit = x, res_score = NA\<rparr>"
  have "results_na i (c # courses) = Inr (?r # rs)" using x rs(1) by simp
  moreover have "length (?r # rs) = length (c # courses)" using rs(2) by simp
  moreover have "\<forall>k<length (c # courses). (?r # rs) ! k =
       \<lparr>res_name = get_name ((c # courses) ! k) (i + k), res_credit = cs ! k, res_score = NA\<rparr>"
  proof (intro allI impI)
    fix k assume "k < length (c # courses)"
    then show "(?r # rs) ! k =
       \<lparr>res_name = get_name ((c # courses) ! k) (i + k), res_credit = cs ! k, res_score = NA\<rparr>"
      using rs(3) cs by (cases k) simp_all
  qed
  ultimately show ?case by blast
qed

lemma results_scored_props:
  "credits_of courses = Inr cs \<Longrightarrow> i + length courses \<le> length v \<Longrightarrow>
     \<exists>rs. results_scored i courses v = Inr rs \<and> length rs = length courses \<and>
       (\<forall>k<length courses. rs ! k =
          \<lparr>res_name = get_name (courses ! k) (i + k), res_credit = cs ! k,
           res_score = np_round2 (v ! (i + k))\<rparr>)"
proof (induction courses arbitrary: cs i)
  case Nil
  then show ?case by simp
next
  case (Cons c courses)
  from Cons.prems obtain x xs where x: "credit c = Some x" and xs: "credits_of courses = Inr xs"
    and cs: "cs = x # xs"
    by (auto split: option.splits sum.splits)
  have len: "i + 1 + length courses \<le> length v" "i < length v" using Cons.prems(2) by simp_all
  from Cons.IH [OF xs len(1)] obtain rs where rs: "results_scored (i + 1) courses v = Inr rs"
    "length rs = length courses"
    "\<forall>k<length courses. rs ! k =
       \<lparr>res_name = get_name (courses ! k) (i + 1 + k), res_credit = xs ! k,
        res_score = np_round2 (v ! (i + 1 + k))\<rparr>"
    by blast
  let ?r = "\<lparr>res_name = get_name c i, res_credit = x, res_score = np_round2 (v ! i)\<rparr>"
  have "results_scored i (c # courses) v = Inr (?r # rs)" using x rs(1) len(2) by simp
  moreover have "length (?r # rs) = length (c # courses)" using rs(2) by simp
  moreover have "\<forall>k<length (c # courses). (?r # rs) ! k =
       \<lparr>res_name = get_name ((c # courses) ! k) (i + k), res_credit = cs ! k,
        res_score = np_round2 (v ! (i + k))\<rparr>"
  proof (intro allI impI)
    fix k assume "k < length (c # courses)"
    then show "(?r # rs) ! k =
       \<lparr>res_name = get_name ((c # courses) ! k) (i + k), res_credit = cs ! k,
        res_score = np_round2 (v ! (i + k))\<rparr>"
      using rs(3) cs by (cases k) simp_all
  qed
  ultimately show ?case by blast
qed


lemma predict_unfold:
  "credits_of courses = Inr cs \<Longrightarrow>
     predict_scores_cvxpy solve courses a b t =
       (let out = solve \<lparr>lp_credits = cs, lp_required = required_points_of cs a b t\<rparr>
        in if status out \<in> {OPTIMAL, OPTIMAL_INACCURATE} \<and> scores_value out \<noteq> None then
             (case results_scored 0 courses (the (scores_value out)) of
                Inl e \<Rightarrow> Inl e
              | Inr results \<Rightarrow> Inr (results, status out))
           else
             (case results_na 0 courses of
                Inl e \<Rightarrow> Inl e
              | Inr results \<Rightarrow> Inr (results, status out)))"
  by (simp add: predict_scores_cvxpy_def build_problem_def)

lemma predict_scored:
  assumes "credits_of courses = Inr cs"
    and "p = \<lparr>lp_credits = cs, lp_required = required_points_of cs a b t\<rparr>"
    and "status (solve p) \<in> {OPTIMAL, OPTIMAL_INACCURATE}"
    and "scores_value (solve p) = Some v"
    and "length v = length cs"
  shows "\<exists>rs. predict_scores_cvxpy solve courses a b t = Inr (rs, status (solve p)) \<and>
           length rs = length courses \<and>
           (\<forall>k<length courses. rs ! k =
              \<lparr>res_name = get_name (courses ! k) k, res_credit = cs ! k,
               res_score = np_round2 (v ! k)\<rparr>)"
proof -
  have "0 + length courses \<le> length v"
    using assms(1,5) by (simp add: credits_of_length)
  from results_scored_props [OF assms(1) this] obtain rs where
    rs: "results_scored 0 courses v = Inr rs" "length rs = length courses"
      "\<forall>k<length courses. rs ! k =
         \<lparr>res_name = get_name (courses ! k) (0 + k), res_credit = cs ! k,
          res_score = np_round2 (v ! (0 + k))\<rparr>"
    by blast
  have "predict_scores_cvxpy solve courses a b t = Inr (rs, status (solve p))"
    using assms(2,3,4) rs(1) by (simp add: predict_unfold [OF assms(1)] Let_def)
  with rs(2,3) show ?thesis by simp
qed

lemma predict_na:
  assumes "credits_of courses = Inr cs"
    and "p = \<lparr>lp_credits = cs, lp_required = required_points_of cs a b t\<rparr>"
    and "status (solve p) \<notin> {OPTIMAL, OPTIMAL_INACCURATE} \<or> scores_value (solve p) = None"
  shows "\<exists>rs. predict_scores_cvxpy solve courses a b t = Inr (rs, status (solve p)) \<and>
           length rs = length courses \<and>
           (\<forall>k<length courses. rs ! k =
              \<lparr>res_name = get_name (courses ! k) k, res_credit = cs ! k, res_score = NA\<rparr>)"
proof -
  from results_na_props [OF assms(1), of 0] obtain rs where
    rs: "results_na 0 courses = Inr rs" "length rs = length courses"
      "\<forall>k<length courses. rs ! k =
         \<lparr>res_name = get_name (courses ! k) (0 + k), res_credit = cs ! k, res_score = NA\<rparr>"
    by blast
  have "predict_scores_cvxpy solve courses a b t = Inr (rs, status (solve p))"
    using assms(2,3) rs(1) by (auto simp add: predict_unfold [OF assms(1)] Let_def)
  with rs(2,3) show ?thesis by simp
qed

lemma required_points_of_eq:
  "required_points_of cs a b t = t * (a + sum_list cs) - b * a"
  by (simp add: required_points_of_def Let_def)

lemma status_distinct:
  "INFEASIBLE \<noteq> OPTIMAL" "INFEASIBLE \<noteq> OPTIMAL_INACCURATE" "OPTIMAL \<noteq> OPTIMAL_INACCURATE"
  by (simp_all add: INFEASIBLE_def OPTIMAL_def OPTIMAL_INACCURATE_def)

lemma predict_cases:
  assumes "credits_of courses = Inr cs"
    and "p = \<lparr>lp_credits = cs, lp_required = t * (a + sum_list cs) - b * a\<rparr>"
    and "shape_ok solve p"
  shows "\<exists>rs. predict_scores_cvxpy solve courses a b t = Inr (rs, status (solve p)) \<and>
           length rs = length courses \<and>
           (\<forall>k<length courses.
              res_name (rs ! k) = get_name (courses ! k) k \<and>
              res_credit (rs ! k) = cs ! k \<and>
              res_score (rs ! k) =
                (if status (solve p) \<in> {OPTIMAL, OPTIMAL_INACCURATE} \<and> scores_value (solve p) \<noteq> None
                 then np_round2 (the (scores_value (solve p)) ! k) else NA))"
proof (cases "status (solve p) \<in> {OPTIMAL, OPTIMAL_INACCURATE} \<and> scores_value (solve p) \<noteq> None")
  case True
  then obtain v where v: "scores_value (solve p) = Some v" by blast
  have len: "length v = length cs" using assms(2,3) v by (simp add: shape_ok_def)
  have p: "p = \<lparr>lp_credits = cs, lp_required = required_points_of cs a b t\<rparr>"
    using assms(2) by (simp add: required_points_of_eq)
  have st: "status (solve p) \<in> {OPTIMAL, OPTIMAL_INACCURATE}" using True by simp
  from predict_scored [of courses cs p a b t solve v, OF assms(1) p st v len]
  show ?thesis using True v by auto
next
  case False
  have p: "p = \<lparr>lp_credits = cs, lp_required = required_points_of cs a b t\<rparr>"
    using assms(2) by (simp add: required_points_of_eq)
  have "status (solve p) \<notin> {OPTIMAL, OPTIMAL_INACCURATE} \<or> scores_value (solve p) = None"
    using False by blast
  from predict_na [of courses cs p a b t solve, OF assms(1) p this]
  show ?thesis using False by auto
qed



lemma scores_of_results:
  assumes "length rs = n" "length v = n"
    and "\<forall>k<n. res_score (rs ! k) = np_round2 (v ! k)"
  shows "map res_score rs = map np_round2 v"
  using assms by (intro nth_equalityI) simp_all

lemma all_na:
  assumes "length rs = n" "\<forall>k<n. res_score (rs ! k) = NA"
  shows "list_all (\<lambda>r. res_score r = NA) rs"
  using assms by (simp add: list_all_length)

text \<open>
  With no course, lines 141 to 148 compute an empty credit array, its sum 0 and the
  threshold without any division, and both loops of lines 170 to 184 append nothing:
  the result is the empty list with the status the library reports for the program of
  zero variables.
\<close>

lemma empty_course_list:
  "predict_scores_cvxpy solve [] a b t =
     Inr ([], status (solve \<lparr>lp_credits = [], lp_required = t * a - b * a\<rparr>))"
  by (simp add: predict_scores_cvxpy_def build_problem_def required_points_of_def Let_def)



subsection \<open>The required points\<close>



subsection \<open>Targets beyond reach\<close>

text \<open>
  C2, as stated, fails: the function has no feasibility test of its own, it returns the
  status the solver reports, and a solver accepts a violation of the first constraint
  that lies within its tolerance. One course of credit 3, \<open>current_total_credits = 2^-20\<close>,
  a current average of 99 and a target of 100 are valid and give the threshold
  \<open>300 + 2^-20\<close>, above the \<open>300\<close> that a score of 100 yields; a solve that ends
  \<^verbatim>\<open>optimal\<close> with the value 100 comes back as \<^verbatim>\<open>optimal\<close> with the score 100.
\<close>

theorem infeasible_counterexample:
  "list_all (\<lambda>x. 0 < x) [3 :: real] \<and> (0 :: real) \<le> 1 / 2 ^ 20 \<and>
   sum_list (map (\<lambda>c. c * 100) [3 :: real]) < 100 * (1 / 2 ^ 20 + sum_list [3]) - 99 * (1 / 2 ^ 20) \<and>
   predict_scores_cvxpy (\<lambda>p. \<lparr>status = OPTIMAL, scores_value = Some [100]\<rparr>)
       [\<lparr>name = Some ''A'', credit = Some 3\<rparr>] (1 / 2 ^ 20) 99 100
     = Inr ([\<lparr>res_name = ''A'', res_credit = 3, res_score = Score 100\<rparr>], OPTIMAL) \<and>
   OPTIMAL \<noteq> INFEASIBLE"
  by (simp add: predict_scores_cvxpy_def build_problem_def get_name_def np_round2_100
      status_distinct [symmetric])

text \<open>
  C2, amended. Whenever the solver reports \<^verbatim>\<open>infeasible\<close>, the function returns the
  status \<^verbatim>\<open>infeasible\<close> and one entry per course, every score the marker.
\<close>

theorem infeasible_status_gives_na:
  assumes "credits_of courses = Inr cs"
    and "status (solve \<lparr>lp_credits = cs, lp_required = t * (a + sum_list cs) - b * a\<rparr>)
           = INFEASIBLE"
  shows "\<exists>rs. predict_scores_cvxpy solve courses a b t = Inr (rs, INFEASIBLE) \<and>
           length rs = length courses \<and> list_all (\<lambda>r. res_score r = NA) rs"
proof -
  let ?p = "\<lparr>lp_credits = cs, lp_required = t * (a + sum_list cs) - b * a\<rparr>"
  have p: "?p = \<lparr>lp_credits = cs, lp_required = required_points_of cs a b t\<rparr>"
    by (simp add: required_points_of_eq)
  have "status (solve ?p) \<notin> {OPTIMAL, OPTIMAL_INACCURATE} \<or> scores_value (solve ?p) = None"
    using assms(2) by (simp add: status_distinct)
  from predict_na [of courses cs ?p a b t solve, OF assms(1) p this] obtain rs where
    rs: "predict_scores_cvxpy solve courses a b t = Inr (rs, status (solve ?p))"
      "length rs = length courses"
      "\<forall>k<length courses. rs ! k =
         \<lparr>res_name = get_name (courses ! k) k, res_credit = cs ! k, res_score = NA\<rparr>"
    by blast
  have "list_all (\<lambda>r. res_score r = NA) rs"
    using rs(2,3) by (intro all_na [where n = "length courses"]) simp_all
  with rs(1,2) assms(2) show ?thesis by simp
qed

text \<open>Scenario A: the threshold is 1272, all three courses at 100 give 900.\<close>

theorem infeasible_status_gives_na_witness:
  "credits_of [\<lparr>name = Some ''A'', credit = Some 3\<rparr>, \<lparr>name = Some ''B'', credit = Some 3\<rparr>,
               \<lparr>name = Some ''C'', credit = Some 3\<rparr>] = Inr [3, 3, 3] \<and>
   status ((\<lambda>p. \<lparr>status = INFEASIBLE, scores_value = None\<rparr>)
     \<lparr>lp_credits = [3, 3, 3], lp_required = 85 * (78 + sum_list [3, 3, 3]) - 157 / 2 * 78\<rparr>)
       = INFEASIBLE \<and>
   predict_scores_cvxpy (\<lambda>p. \<lparr>status = INFEASIBLE, scores_value = None\<rparr>)
       [\<lparr>name = Some ''A'', credit = Some 3\<rparr>, \<lparr>name = Some ''B'', credit = Some 3\<rparr>,
        \<lparr>name = Some ''C'', credit = Some 3\<rparr>] 78 (157 / 2) 85
     = Inr ([\<lparr>res_name = ''A'', res_credit = 3, res_score = NA\<rparr>,
             \<lparr>res_name = ''B'', res_credit = 3, res_score = NA\<rparr>,
             \<lparr>res_name = ''C'', res_credit = 3, res_score = NA\<rparr>], INFEASIBLE)"
proof -
  let ?cs = "[\<lparr>name = Some ''A'', credit = Some 3\<rparr>, \<lparr>name = Some ''B'', credit = Some 3\<rparr>,
               \<lparr>name = Some ''C'', credit = Some 3\<rparr>]"
  let ?solve = "\<lambda>p :: lp_problem. \<lparr>status = INFEASIBLE, scores_value = None\<rparr>"
  let ?p = "\<lparr>lp_credits = [3, 3, 3], lp_required = 85 * (78 + sum_list [3, 3, 3]) - 157 / 2 * 78\<rparr>"
  have h1: "credits_of ?cs = Inr [3, 3, 3]" by simp
  have h2: "status (?solve ?p) = INFEASIBLE" by simp
  from infeasible_status_gives_na [of ?cs "[3, 3, 3]" ?solve 85 78 "157 / 2", OF h1 h2]
  obtain rs where rs: "predict_scores_cvxpy ?solve ?cs 78 (157 / 2) 85 = Inr (rs, INFEASIBLE)"
    by blast
  have "predict_scores_cvxpy ?solve ?cs 78 (157 / 2) 85
     = Inr ([\<lparr>res_name = ''A'', res_credit = 3, res_score = NA\<rparr>,
             \<lparr>res_name = ''B'', res_credit = 3, res_score = NA\<rparr>,
             \<lparr>res_name = ''C'', res_credit = 3, res_score = NA\<rparr>], INFEASIBLE)"
    by (simp add: predict_scores_cvxpy_def build_problem_def get_name_def status_distinct)
  with rs h1 h2 show ?thesis by simp
qed

subsection \<open>Targets within reach\<close>

text \<open>
  C1, as stated, fails for the scores that are returned: they are rounded to two
  decimals (line 174), and the rounding moves their weighted total away from the
  threshold by more than a relative tolerance of one in a million. One course of
  credit 3 and a threshold of 200: a solver value within \<open>2 * 10^-8\<close> of \<open>200/3\<close>, whose
  own total is within the tolerance, is returned as the double 66.67, a total of 200.01.
\<close>

theorem optimal_total_counterexample:
  "\<bar>dot [3] [1118481067 / 2 ^ 24] - (50 * (1 + sum_list [3]) - 0 * 1)\<bar>
     \<le> (50 * (1 + sum_list [3]) - 0 * 1) / 10 ^ 6 \<and>
   predict_scores_cvxpy (\<lambda>p. \<lparr>status = OPTIMAL, scores_value = Some [1118481067 / 2 ^ 24]\<rparr>)
       [\<lparr>name = Some ''A'', credit = Some 3\<rparr>] 1 0 50
     = Inr ([\<lparr>res_name = ''A'', res_credit = 3, res_score = Score (fl (6667 / 100))\<rparr>], OPTIMAL) \<and>
   \<not> \<bar>dot [3] [fl (6667 / 100)] - (50 * (1 + sum_list [3]) - 0 * 1)\<bar>
       \<le> (50 * (1 + sum_list [3]) - 0 * 1) / 10 ^ 6"
proof -
  have a: "\<bar>dot [3] [1118481067 / 2 ^ 24] - (50 * (1 + sum_list [3]) - 0 * 1)\<bar>
     \<le> (50 * (1 + sum_list [3]) - 0 * 1) / 10 ^ 6"
    by simp
  have b: "predict_scores_cvxpy
       (\<lambda>p. \<lparr>status = OPTIMAL, scores_value = Some [1118481067 / 2 ^ 24]\<rparr>)
       [\<lparr>name = Some ''A'', credit = Some 3\<rparr>] 1 0 50
     = Inr ([\<lparr>res_name = ''A'', res_credit = 3, res_score = Score (fl (6667 / 100))\<rparr>], OPTIMAL)"
    using np_round2_x1
    by (simp add: predict_scores_cvxpy_def build_problem_def get_name_def)
  have c: "\<not> \<bar>dot [3] [fl (6667 / 100)] - (50 * (1 + sum_list [3]) - 0 * 1)\<bar>
       \<le> (50 * (1 + sum_list [3]) - 0 * 1) / 10 ^ 6"
    by (simp add: fl_6667)
  from a b c show ?thesis by blast
qed

text \<open>
  C1, amended. When the solver reports \<^verbatim>\<open>optimal\<close> with one value per course, the
  function returns the status \<^verbatim>\<open>optimal\<close> and one entry per course, and the returned
  scores are the solver's values, each rounded by \<^verbatim>\<open>np.round(., 2)\<close>. Nothing in the
  function holds the weighted total of the returned scores to the threshold.
\<close>

theorem optimal_status_returns_rounded_values:
  assumes "credits_of courses = Inr cs"
    and "status (solve \<lparr>lp_credits = cs, lp_required = t * (a + sum_list cs) - b * a\<rparr>)
           = OPTIMAL"
    and "scores_value (solve \<lparr>lp_credits = cs, lp_required = t * (a + sum_list cs) - b * a\<rparr>)
           = Some v"
    and "length v = length cs"
  shows "\<exists>rs. predict_scores_cvxpy solve courses a b t = Inr (rs, OPTIMAL) \<and>
           length rs = length courses \<and> map res_score rs = map np_round2 v"
proof -
  let ?p = "\<lparr>lp_credits = cs, lp_required = t * (a + sum_list cs) - b * a\<rparr>"
  have p: "?p = \<lparr>lp_credits = cs, lp_required = required_points_of cs a b t\<rparr>"
    by (simp add: required_points_of_eq)
  have st: "status (solve ?p) \<in> {OPTIMAL, OPTIMAL_INACCURATE}" using assms(2) by simp
  from predict_scored [of courses cs ?p a b t solve v, OF assms(1) p st assms(3,4)] obtain rs where
    rs: "predict_scores_cvxpy solve courses a b t = Inr (rs, status (solve ?p))"
      "length rs = length courses"
      "\<forall>k<length courses. rs ! k =
         \<lparr>res_name = get_name (courses ! k) k, res_credit = cs ! k,
          res_score = np_round2 (v ! k)\<rparr>"
    by blast
  have lc: "length v = length courses" using assms(1,4) by (simp add: credits_of_length)
  have "\<forall>k<length courses. res_score (rs ! k) = np_round2 (v ! k)" using rs(3) by simp
  with rs(2) lc have "map res_score rs = map np_round2 v"
    by (intro scores_of_results [where n = "length courses"]) simp_all
  with rs(1,2) assms(2) show ?thesis by simp
qed

text \<open>
  Scenario C: the threshold is 105. A solver value of \<open>35 + 2^-30\<close> is returned as the
  score 35.
\<close>

theorem optimal_status_returns_rounded_values_witness:
  "credits_of [\<lparr>name = Some ''A'', credit = Some 3\<rparr>] = Inr [3] \<and>
   status ((\<lambda>p. \<lparr>status = OPTIMAL, scores_value = Some [35 + 1 / 2 ^ 30]\<rparr>)
     \<lparr>lp_credits = [3], lp_required = 85 * (30 + sum_list [3]) - 90 * 30\<rparr>) = OPTIMAL \<and>
   scores_value ((\<lambda>p. \<lparr>status = OPTIMAL, scores_value = Some [35 + 1 / 2 ^ 30]\<rparr>)
     \<lparr>lp_credits = [3], lp_required = 85 * (30 + sum_list [3]) - 90 * 30\<rparr>)
       = Some [35 + 1 / 2 ^ 30] \<and>
   length [35 + 1 / 2 ^ 30 :: real] = length [3 :: real] \<and>
   predict_scores_cvxpy (\<lambda>p. \<lparr>status = OPTIMAL, scores_value = Some [35 + 1 / 2 ^ 30]\<rparr>)
       [\<lparr>name = Some ''A'', credit = Some 3\<rparr>] 30 90 85
     = Inr ([\<lparr>res_name = ''A'', res_credit = 3, res_score = Score 35\<rparr>], OPTIMAL)"
proof -
  let ?cs = "[\<lparr>name = Some ''A'', credit = Some 3\<rparr>]"
  let ?solve = "\<lambda>p :: lp_problem. \<lparr>status = OPTIMAL, scores_value = Some [35 + 1 / 2 ^ 30]\<rparr>"
  let ?p = "\<lparr>lp_credits = [3], lp_required = 85 * (30 + sum_list [3]) - 90 * 30\<rparr>"
  have h1: "credits_of ?cs = Inr [3]" by simp
  have h2: "status (?solve ?p) = OPTIMAL" by simp
  have h3: "scores_value (?solve ?p) = Some [35 + 1 / 2 ^ 30]" by simp
  have h4: "length [35 + 1 / 2 ^ 30 :: real] = length [3 :: real]" by simp
  from optimal_status_returns_rounded_values [of ?cs "[3]" ?solve 85 30 90, OF h1 h2 h3 h4]
  obtain rs where rs: "predict_scores_cvxpy ?solve ?cs 30 90 85 = Inr (rs, OPTIMAL)"
    "map res_score rs = map np_round2 [35 + 1 / 2 ^ 30]"
    by blast
  have "predict_scores_cvxpy ?solve ?cs 30 90 85
     = Inr ([\<lparr>res_name = ''A'', res_credit = 3, res_score = Score 35\<rparr>], OPTIMAL)"
    using np_round2_xC
    by (simp add: predict_scores_cvxpy_def build_problem_def get_name_def)
  with rs(1) h1 h2 h3 h4 show ?thesis by simp
qed

subsection \<open>Results with the status optimal\<close>

text \<open>
  C3, as stated, fails for the scores that are returned: rounding to two decimals can
  push their weighted total below the threshold by more than a relative tolerance of
  one in a million. One course of credit 3 and a threshold of 100: a solver value
  within \<open>2 * 10^-8\<close> of \<open>100/3\<close>, whose own total is within the tolerance, is returned as
  the double 33.33, a total of 99.99.
\<close>

theorem optimal_scores_counterexample:
  "25 * (1 + sum_list [3]) - 0 * 1 - (25 * (1 + sum_list [3]) - 0 * 1) / 10 ^ 6
     \<le> dot [3] [559240533 / 2 ^ 24] \<and>
   predict_scores_cvxpy (\<lambda>p. \<lparr>status = OPTIMAL, scores_value = Some [559240533 / 2 ^ 24]\<rparr>)
       [\<lparr>name = Some ''A'', credit = Some 3\<rparr>] 1 0 25
     = Inr ([\<lparr>res_name = ''A'', res_credit = 3, res_score = Score (fl (3333 / 100))\<rparr>], OPTIMAL) \<and>
   \<not> 25 * (1 + sum_list [3]) - 0 * 1 - (25 * (1 + sum_list [3]) - 0 * 1) / 10 ^ 6
       \<le> dot [3] [fl (3333 / 100)]"
proof -
  have a: "25 * (1 + sum_list [3]) - 0 * 1 - (25 * (1 + sum_list [3]) - 0 * 1) / 10 ^ 6
     \<le> dot [3] [559240533 / 2 ^ 24]"
    by simp
  have b: "predict_scores_cvxpy
       (\<lambda>p. \<lparr>status = OPTIMAL, scores_value = Some [559240533 / 2 ^ 24]\<rparr>)
       [\<lparr>name = Some ''A'', credit = Some 3\<rparr>] 1 0 25
     = Inr ([\<lparr>res_name = ''A'', res_credit = 3, res_score = Score (fl (3333 / 100))\<rparr>], OPTIMAL)"
    using np_round2_x3
    by (simp add: predict_scores_cvxpy_def build_problem_def get_name_def)
  have c: "\<not> 25 * (1 + sum_list [3]) - 0 * 1 - (25 * (1 + sum_list [3]) - 0 * 1) / 10 ^ 6
       \<le> dot [3] [fl (3333 / 100)]"
    by (simp add: fl_3333)
  from a b c show ?thesis by blast
qed

text \<open>
  C3, amended. A result has the status \<^verbatim>\<open>optimal\<close> only when the solver reported it,
  and its scores are then the solver's values, each rounded by \<^verbatim>\<open>np.round(., 2)\<close>
  (or the marker throughout, when the solver left no values). The function neither
  tests the first constraint on the rounded scores nor clips them to the range from 0
  to 100.
\<close>

theorem optimal_result_scores:
  assumes "credits_of courses = Inr cs"
    and "shape_ok solve \<lparr>lp_credits = cs, lp_required = t * (a + sum_list cs) - b * a\<rparr>"
    and "predict_scores_cvxpy solve courses a b t = Inr (rs, OPTIMAL)"
  shows "status (solve \<lparr>lp_credits = cs, lp_required = t * (a + sum_list cs) - b * a\<rparr>)
           = OPTIMAL \<and>
         length rs = length courses \<and>
         (case scores_value
                 (solve \<lparr>lp_credits = cs, lp_required = t * (a + sum_list cs) - b * a\<rparr>) of
            None \<Rightarrow> list_all (\<lambda>r. res_score r = NA) rs
          | Some v \<Rightarrow> map res_score rs = map np_round2 v)"
proof -
  let ?p = "\<lparr>lp_credits = cs, lp_required = t * (a + sum_list cs) - b * a\<rparr>"
  let ?scored = "status (solve ?p) \<in> {OPTIMAL, OPTIMAL_INACCURATE} \<and> scores_value (solve ?p) \<noteq> None"
  from predict_cases [OF assms(1) refl assms(2)] obtain rs' where
    rs: "predict_scores_cvxpy solve courses a b t = Inr (rs', status (solve ?p))"
      "length rs' = length courses"
      "\<forall>k<length courses.
         res_name (rs' ! k) = get_name (courses ! k) k \<and> res_credit (rs' ! k) = cs ! k \<and>
         res_score (rs' ! k) =
           (if ?scored then np_round2 (the (scores_value (solve ?p)) ! k) else NA)"
    by blast
  from rs(1) assms(3) have eq: "rs' = rs" and st: "status (solve ?p) = OPTIMAL" by simp_all
  have len: "length rs = length courses" using rs(2) eq by simp
  have sc: "\<forall>k<length courses. res_score (rs ! k) =
      (if ?scored then np_round2 (the (scores_value (solve ?p)) ! k) else NA)"
    using rs(3) eq by simp
  show ?thesis
  proof (cases "scores_value (solve ?p)")
    case None
    then have ns: "\<not> ?scored" by simp
    have "\<forall>k<length courses. res_score (rs ! k) = NA"
    proof (intro allI impI)
      fix k assume "k < length courses"
      with sc have "res_score (rs ! k) =
          (if ?scored then np_round2 (the (scores_value (solve ?p)) ! k) else NA)"
        by blast
      also have "\<dots> = NA" using ns by (rule if_not_P)
      finally show "res_score (rs ! k) = NA" .
    qed
    with len have "list_all (\<lambda>r. res_score r = NA) rs"
      by (intro all_na [where n = "length courses"]) simp_all
    with st len None show ?thesis by simp
  next
    case (Some v)
    then have ys: "?scored" using st by simp
    have "\<forall>k<length courses. res_score (rs ! k) = np_round2 (v ! k)"
    proof (intro allI impI)
      fix k assume "k < length courses"
      with sc have "res_score (rs ! k) =
          (if ?scored then np_round2 (the (scores_value (solve ?p)) ! k) else NA)"
        by blast
      also have "\<dots> = np_round2 (the (scores_value (solve ?p)) ! k)" using ys by (rule if_P)
      finally show "res_score (rs ! k) = np_round2 (v ! k)" using Some by simp
    qed
    moreover have "length v = length courses"
      using assms(1,2) Some by (simp add: shape_ok_def credits_of_length)
    ultimately have "map res_score rs = map np_round2 v"
      using len by (intro scores_of_results [where n = "length courses"]) simp_all
    with st len Some show ?thesis by simp
  qed
qed

text \<open>Scenario B with the distribution \<open>(92, 92)\<close>: the threshold is 552.\<close>

theorem optimal_result_scores_witness:
  "credits_of [\<lparr>name = Some ''A'', credit = Some 3\<rparr>, \<lparr>name = Some ''B'', credit = Some 3\<rparr>]
     = Inr [3, 3] \<and>
   shape_ok (\<lambda>p. \<lparr>status = OPTIMAL, scores_value = Some [92, 92]\<rparr>)
     \<lparr>lp_credits = [3, 3], lp_required = 72 * (60 + sum_list [3, 3]) - 70 * 60\<rparr> \<and>
   predict_scores_cvxpy (\<lambda>p. \<lparr>status = OPTIMAL, scores_value = Some [92, 92]\<rparr>)
       [\<lparr>name = Some ''A'', credit = Some 3\<rparr>, \<lparr>name = Some ''B'', credit = Some 3\<rparr>] 60 70 72
     = Inr ([\<lparr>res_name = ''A'', res_credit = 3, res_score = Score 92\<rparr>,
             \<lparr>res_name = ''B'', res_credit = 3, res_score = Score 92\<rparr>], OPTIMAL) \<and>
   map res_score [\<lparr>res_name = ''A'', res_credit = 3, res_score = Score 92\<rparr>,
                  \<lparr>res_name = ''B'', res_credit = 3, res_score = Score 92\<rparr>]
     = map np_round2 [92, 92]"
proof -
  let ?cs = "[\<lparr>name = Some ''A'', credit = Some 3\<rparr>, \<lparr>name = Some ''B'', credit = Some 3\<rparr>]"
  let ?solve = "\<lambda>p :: lp_problem. \<lparr>status = OPTIMAL, scores_value = Some [92, 92]\<rparr>"
  let ?p = "\<lparr>lp_credits = [3, 3], lp_required = 72 * (60 + sum_list [3, 3]) - 70 * 60\<rparr>"
  let ?rs = "[\<lparr>res_name = ''A'', res_credit = 3, res_score = Score 92\<rparr>,
             \<lparr>res_name = ''B'', res_credit = 3, res_score = Score 92\<rparr>]"
  have r: "np_round2 92 = Score 92" by (simp add: np_round2_def not_overflows_small)
  have h1: "credits_of ?cs = Inr [3, 3]" by simp
  have h2: "shape_ok ?solve ?p" by (simp add: shape_ok_def)
  have h3: "predict_scores_cvxpy ?solve ?cs 60 70 72 = Inr (?rs, OPTIMAL)"
    by (simp add: predict_scores_cvxpy_def build_problem_def get_name_def r)
  from optimal_result_scores [of ?cs "[3, 3]" ?solve 72 60 70 ?rs, OF h1 h2 h3]
  have "map res_score ?rs = map np_round2 [92, 92]" by simp
  with h1 h2 h3 show ?thesis by blast
qed

subsection \<open>The shape of the result\<close>




subsection \<open>A status of the optimal family without values\<close>

text \<open>
  C10. When the library reports \<^verbatim>\<open>optimal\<close> or \<^verbatim>\<open>optimal_inaccurate\<close> but
  \<^verbatim>\<open>scores.value\<close> is \<open>None\<close>, the function takes the second branch: it returns one
  entry per course, every score the marker \<^verbatim>\<open>"N/A"\<close>, together with the library's
  status, and it does not read the missing values. The courses carry a credit, as
  line 141 has already read it.
\<close>

theorem missing_values_give_na:
  assumes "credits_of courses = Inr cs"
    and "status (solve \<lparr>lp_credits = cs, lp_required = t * (a + sum_list cs) - b * a\<rparr>)
           \<in> {OPTIMAL, OPTIMAL_INACCURATE}"
    and "scores_value (solve \<lparr>lp_credits = cs, lp_required = t * (a + sum_list cs) - b * a\<rparr>)
           = None"
  shows "\<exists>rs. predict_scores_cvxpy solve courses a b t =
              Inr (rs, status (solve \<lparr>lp_credits = cs,
                                      lp_required = t * (a + sum_list cs) - b * a\<rparr>)) \<and>
           length rs = length courses \<and>
           (\<forall>k<length courses.
              res_name (rs ! k) = get_name (courses ! k) k \<and>
              credit (courses ! k) = Some (res_credit (rs ! k)) \<and>
              res_score (rs ! k) = NA)"
proof -
  let ?p = "\<lparr>lp_credits = cs, lp_required = t * (a + sum_list cs) - b * a\<rparr>"
  have "shape_ok solve ?p" using assms(3) by (simp add: shape_ok_def)
  from predict_cases [OF assms(1) refl this]
  show ?thesis using assms(3) credits_of_nth [OF assms(1)] by auto
qed

text \<open>Two courses, the second without a name, and a solver that leaves no values.\<close>

theorem missing_values_give_na_witness:
  "credits_of [\<lparr>name = Some ''A'', credit = Some 3\<rparr>, \<lparr>name = None, credit = Some 2\<rparr>]
     = Inr [3, 2] \<and>
   status ((\<lambda>p. \<lparr>status = OPTIMAL, scores_value = None\<rparr>)
     \<lparr>lp_credits = [3, 2], lp_required = 85 * (30 + sum_list [3, 2]) - 90 * 30\<rparr>)
       \<in> {OPTIMAL, OPTIMAL_INACCURATE} \<and>
   scores_value ((\<lambda>p. \<lparr>status = OPTIMAL, scores_value = None\<rparr>)
     \<lparr>lp_credits = [3, 2], lp_required = 85 * (30 + sum_list [3, 2]) - 90 * 30\<rparr>) = None \<and>
   predict_scores_cvxpy (\<lambda>p. \<lparr>status = OPTIMAL, scores_value = None\<rparr>)
       [\<lparr>name = Some ''A'', credit = Some 3\<rparr>, \<lparr>name = None, credit = Some 2\<rparr>] 30 90 85
     = Inr ([\<lparr>res_name = ''A'', res_credit = 3, res_score = NA\<rparr>,
             \<lparr>res_name = ''Course 2'', res_credit = 2, res_score = NA\<rparr>], OPTIMAL)"
proof -
  let ?cs = "[\<lparr>name = Some ''A'', credit = Some 3\<rparr>, \<lparr>name = None, credit = Some 2\<rparr>]"
  let ?solve = "\<lambda>p :: lp_problem. \<lparr>status = OPTIMAL, scores_value = None\<rparr>"
  let ?p = "\<lparr>lp_credits = [3, 2], lp_required = 85 * (30 + sum_list [3, 2]) - 90 * 30\<rparr>"
  have h1: "credits_of ?cs = Inr [3, 2]" by simp
  have h2: "status (?solve ?p) \<in> {OPTIMAL, OPTIMAL_INACCURATE}" by simp
  have h3: "scores_value (?solve ?p) = None" by simp
  have n: "str_nat (Suc (Suc 0)) = ''2''" by code_simp
  from missing_values_give_na [of ?cs "[3, 2]" ?solve 85 30 90, OF h1 h2 h3] obtain rs where
    rs: "predict_scores_cvxpy ?solve ?cs 30 90 85 = Inr (rs, OPTIMAL)"
      "\<forall>k<length ?cs. res_score (rs ! k) = NA"
    by auto
  have "predict_scores_cvxpy ?solve ?cs 30 90 85
     = Inr ([\<lparr>res_name = ''A'', res_credit = 3, res_score = NA\<rparr>,
             \<lparr>res_name = ''Course 2'', res_credit = 2, res_score = NA\<rparr>], OPTIMAL)"
    by (simp add: predict_scores_cvxpy_def build_problem_def get_name_def n)
  with rs(1) h1 h2 h3 show ?thesis by simp
qed

subsection \<open>The status that is returned\<close>

text \<open>
  C7, as stated, fails: the function returns \<^verbatim>\<open>prob.status\<close> itself, and line 169
  accepts \<^verbatim>\<open>optimal_inaccurate\<close> next to \<^verbatim>\<open>optimal\<close>. A solve that ends with
  \<^verbatim>\<open>optimal_inaccurate\<close>, a status that is neither \<^verbatim>\<open>optimal\<close> nor
  \<^verbatim>\<open>infeasible\<close>, comes back under that very status with a numeric score.
\<close>

theorem three_statuses_counterexample:
  "predict_scores_cvxpy (\<lambda>p. \<lparr>status = OPTIMAL_INACCURATE, scores_value = Some [35]\<rparr>)
       [\<lparr>name = Some ''A'', credit = Some 3\<rparr>] 30 90 85
     = Inr ([\<lparr>res_name = ''A'', res_credit = 3, res_score = Score 35\<rparr>], ''optimal_inaccurate'') \<and>
   ''optimal_inaccurate'' \<noteq> OPTIMAL \<and> ''optimal_inaccurate'' \<noteq> INFEASIBLE \<and> Score 35 \<noteq> NA"
  by (simp add: predict_scores_cvxpy_def build_problem_def get_name_def np_round2_35
      OPTIMAL_def OPTIMAL_INACCURATE_def INFEASIBLE_def)

text \<open>
  C7, amended. The status returned is the library's status, unchanged. Whenever it is
  neither \<^verbatim>\<open>optimal\<close> nor \<^verbatim>\<open>optimal_inaccurate\<close>, every score is the marker; when it
  is not \<^verbatim>\<open>infeasible\<close> either, the feasibility card shows the solver-issue warning
  with that status.
\<close>

theorem status_returned_unchanged:
  assumes "credits_of courses = Inr cs"
    and "shape_ok solve \<lparr>lp_credits = cs, lp_required = t * (a + sum_list cs) - b * a\<rparr>"
  shows "\<exists>rs. predict_scores_cvxpy solve courses a b t =
              Inr (rs, status (solve \<lparr>lp_credits = cs,
                                      lp_required = t * (a + sum_list cs) - b * a\<rparr>)) \<and>
           (status (solve \<lparr>lp_credits = cs, lp_required = t * (a + sum_list cs) - b * a\<rparr>)
              \<notin> {OPTIMAL, OPTIMAL_INACCURATE} \<longrightarrow>
            list_all (\<lambda>r. res_score r = NA) rs \<and>
            (status (solve \<lparr>lp_credits = cs, lp_required = t * (a + sum_list cs) - b * a\<rparr>)
               \<noteq> INFEASIBLE \<longrightarrow>
             feasibility_card rs
               (status (solve \<lparr>lp_credits = cs, lp_required = t * (a + sum_list cs) - b * a\<rparr>))
             = SolverIssue
                 (status (solve \<lparr>lp_credits = cs,
                                   lp_required = t * (a + sum_list cs) - b * a\<rparr>))))"
proof -
  let ?p = "\<lparr>lp_credits = cs, lp_required = t * (a + sum_list cs) - b * a\<rparr>"
  let ?scored = "status (solve ?p) \<in> {OPTIMAL, OPTIMAL_INACCURATE} \<and> scores_value (solve ?p) \<noteq> None"
  from predict_cases [OF assms(1) refl assms(2)] obtain rs where
    rs: "predict_scores_cvxpy solve courses a b t = Inr (rs, status (solve ?p))"
      "length rs = length courses"
      "\<forall>k<length courses.
         res_name (rs ! k) = get_name (courses ! k) k \<and> res_credit (rs ! k) = cs ! k \<and>
         res_score (rs ! k) =
           (if ?scored then np_round2 (the (scores_value (solve ?p)) ! k) else NA)"
    by blast
  have na: "list_all (\<lambda>r. res_score r = NA) rs"
    if "status (solve ?p) \<notin> {OPTIMAL, OPTIMAL_INACCURATE}"
    unfolding list_all_length
  proof (intro allI impI)
    fix k assume "k < length rs"
    then have k: "k < length courses" using rs(2) by simp
    from rs(3) k have "res_score (rs ! k) =
        (if ?scored then np_round2 (the (scores_value (solve ?p)) ! k) else NA)"
      by blast
    also have "\<dots> = NA" using that by (intro if_not_P) blast
    finally show "res_score (rs ! k) = NA" .
  qed
  have card: "feasibility_card rs (status (solve ?p)) = SolverIssue (status (solve ?p))"
    if "status (solve ?p) \<notin> {OPTIMAL, OPTIMAL_INACCURATE}" "status (solve ?p) \<noteq> INFEASIBLE"
    using that by (simp add: feasibility_card_def)
  from rs(1) na card show ?thesis by blast
qed

text \<open>A solve that ends with \<^verbatim>\<open>solver_error\<close>.\<close>

theorem status_returned_unchanged_witness:
  "credits_of [\<lparr>name = Some ''A'', credit = Some 3\<rparr>] = Inr [3] \<and>
   shape_ok (\<lambda>p. \<lparr>status = ''solver_error'', scores_value = None\<rparr>)
     \<lparr>lp_credits = [3], lp_required = 85 * (30 + sum_list [3]) - 90 * 30\<rparr> \<and>
   ''solver_error'' \<notin> {OPTIMAL, OPTIMAL_INACCURATE} \<and> ''solver_error'' \<noteq> INFEASIBLE \<and>
   predict_scores_cvxpy (\<lambda>p. \<lparr>status = ''solver_error'', scores_value = None\<rparr>)
       [\<lparr>name = Some ''A'', credit = Some 3\<rparr>] 30 90 85
     = Inr ([\<lparr>res_name = ''A'', res_credit = 3, res_score = NA\<rparr>], ''solver_error'') \<and>
   feasibility_card [\<lparr>res_name = ''A'', res_credit = 3, res_score = NA\<rparr>] ''solver_error''
     = SolverIssue ''solver_error''"
proof -
  let ?cs = "[\<lparr>name = Some ''A'', credit = Some 3\<rparr>]"
  let ?solve = "\<lambda>p :: lp_problem. \<lparr>status = ''solver_error'', scores_value = None\<rparr>"
  let ?p = "\<lparr>lp_credits = [3], lp_required = 85 * (30 + sum_list [3]) - 90 * 30\<rparr>"
  have h1: "credits_of ?cs = Inr [3]" by simp
  have h2: "shape_ok ?solve ?p" by (simp add: shape_ok_def)
  have h3: "''solver_error'' \<notin> {OPTIMAL, OPTIMAL_INACCURATE}" "''solver_error'' \<noteq> INFEASIBLE"
    by (simp_all add: OPTIMAL_def OPTIMAL_INACCURATE_def INFEASIBLE_def)
  from status_returned_unchanged [of ?cs "[3]" ?solve 85 30 90, OF h1 h2] h3 obtain rs where
    rs: "predict_scores_cvxpy ?solve ?cs 30 90 85 = Inr (rs, ''solver_error'')"
      "feasibility_card rs ''solver_error'' = SolverIssue ''solver_error''"
    by auto
  have "predict_scores_cvxpy ?solve ?cs 30 90 85
     = Inr ([\<lparr>res_name = ''A'', res_credit = 3, res_score = NA\<rparr>], ''solver_error'')"
    using h3 by (simp add: predict_scores_cvxpy_def build_problem_def get_name_def)
  with rs h1 h2 h3 show ?thesis by simp
qed

subsection \<open>No validation before the solve\<close>




end
